theory Spec2Isabelle
  imports Complex_Main "HOL-Library.AList"
begin

section \<open>Text primitives\<close>

text \<open>
  A Python \<open>str\<close> is modelled as a \<^typ>\<open>string\<close>, one \<^typ>\<open>char\<close> per code point, for
  the code points below 256 (Latin-1, which covers every name of the gazetteer).  On this
  range \<open>str.lower\<close> maps character by character, \<open>str.strip\<close> and the regular
  expression class \<open>\s\<close> remove the same twelve characters, and \<open>re.IGNORECASE\<close>
  compares the lower-cased characters.
\<close>

definition upper_chars :: string where
  "upper_chars = ''ABCDEFGHIJKLMNOPQRSTUVWXYZ'' @
     [CHR 0xC0, CHR 0xC1, CHR 0xC2, CHR 0xC3, CHR 0xC4, CHR 0xC5, CHR 0xC6, CHR 0xC7,
      CHR 0xC8, CHR 0xC9, CHR 0xCA, CHR 0xCB, CHR 0xCC, CHR 0xCD, CHR 0xCE, CHR 0xCF,
      CHR 0xD0, CHR 0xD1, CHR 0xD2, CHR 0xD3, CHR 0xD4, CHR 0xD5, CHR 0xD6,
      CHR 0xD8, CHR 0xD9, CHR 0xDA, CHR 0xDB, CHR 0xDC, CHR 0xDD, CHR 0xDE]"

definition lower_chars :: string where
  "lower_chars = ''abcdefghijklmnopqrstuvwxyz'' @
     [CHR 0xE0, CHR 0xE1, CHR 0xE2, CHR 0xE3, CHR 0xE4, CHR 0xE5, CHR 0xE6, CHR 0xE7,
      CHR 0xE8, CHR 0xE9, CHR 0xEA, CHR 0xEB, CHR 0xEC, CHR 0xED, CHR 0xEE, CHR 0xEF,
      CHR 0xF0, CHR 0xF1, CHR 0xF2, CHR 0xF3, CHR 0xF4, CHR 0xF5, CHR 0xF6,
      CHR 0xF8, CHR 0xF9, CHR 0xFA, CHR 0xFB, CHR 0xFC, CHR 0xFD, CHR 0xFE]"

text \<open>\<open>str.lower\<close> on one character: the upper-case letters go to their lower-case
  partners, every other character stays.\<close>

definition lower_char :: "char \<Rightarrow> char" where
  "lower_char c = (case map_of (zip upper_chars lower_chars) c of Some d \<Rightarrow> d | None \<Rightarrow> c)"

text \<open>The same function on the bits of the character, for evaluation: the upper-case
  letters are the codes \<open>0x41\<close> to \<open>0x5A\<close> and \<open>0xC0\<close> to \<open>0xDE\<close> without \<open>0xD7\<close>, and
  the lower-case partner sets the bit of weight 32.\<close>

lemma lower_char_bits:
  "\<forall>b0 b1 b2 b3 b4 b5 b6 b7.
     lower_char (Char b0 b1 b2 b3 b4 b5 b6 b7) =
     (if b6 \<and> \<not> b5 \<and>
         (if b7 then \<not> (b0 \<and> b1 \<and> b2 \<and> b4)
          else (b0 \<or> b1 \<or> b2 \<or> b3 \<or> b4) \<and> \<not> (b4 \<and> b3 \<and> (b2 \<or> b1 \<and> b0)))
      then Char b0 b1 b2 b3 b4 True b6 b7
      else Char b0 b1 b2 b3 b4 b5 b6 b7)"
  by code_simp

lemma lower_char_code [code]:
  "lower_char (Char b0 b1 b2 b3 b4 b5 b6 b7) =
     (if b6 \<and> \<not> b5 \<and>
         (if b7 then \<not> (b0 \<and> b1 \<and> b2 \<and> b4)
          else (b0 \<or> b1 \<or> b2 \<or> b3 \<or> b4) \<and> \<not> (b4 \<and> b3 \<and> (b2 \<or> b1 \<and> b0)))
      then Char b0 b1 b2 b3 b4 True b6 b7
      else Char b0 b1 b2 b3 b4 b5 b6 b7)"
  using lower_char_bits by blast

definition lower :: "string \<Rightarrow> string" where
  "lower s = map lower_char s"

text \<open>\<open>str.isspace\<close> on one character; also the class \<open>\s\<close>.\<close>

definition isspace :: "char \<Rightarrow> bool" where
  "isspace c = (c \<in> set [CHR 0x09, CHR 0x0A, CHR 0x0B, CHR 0x0C, CHR 0x0D,
                          CHR 0x1C, CHR 0x1D, CHR 0x1E, CHR 0x1F, CHR 0x20, CHR 0x85, CHR 0xA0])"

text \<open>The class \<open>\w\<close>: the alphanumeric characters and the underscore.\<close>

definition isword :: "char \<Rightarrow> bool" where
  "isword c = (c \<in> set (''0123456789_'' @ upper_chars @ lower_chars @
      [CHR 0xAA, CHR 0xB2, CHR 0xB3, CHR 0xB5, CHR 0xB9, CHR 0xBA, CHR 0xBC, CHR 0xBD, CHR 0xBE,
       CHR 0xDF, CHR 0xFF]))"

text \<open>\<open>s.strip()\<close>\<close>

definition strip :: "string \<Rightarrow> string" where
  "strip s = rev (dropWhile isspace (rev (dropWhile isspace s)))"

text \<open>\<open>s.startswith(p)\<close>\<close>

fun startswith :: "string \<Rightarrow> string \<Rightarrow> bool" where
  "startswith s [] = True"
| "startswith [] (p # ps) = False"
| "startswith (c # s) (p # ps) = (if c = p then startswith s ps else False)"

lemma startswith_iff: "startswith s p \<longleftrightarrow> (\<exists>r. s = p @ r)"
  by (induction s p rule: startswith.induct) auto

text \<open>A literal matched under \<open>re.IGNORECASE\<close> at the head of \<open>s\<close>.\<close>

fun istartswith :: "string \<Rightarrow> string \<Rightarrow> bool" where
  "istartswith s [] = True"
| "istartswith [] (p # ps) = False"
| "istartswith (c # s) (p # ps) = (if lower_char c = lower_char p then istartswith s ps else False)"

text \<open>\<open>sub in s\<close>: \<open>sub\<close> occurs in \<open>s\<close> as a contiguous substring.\<close>

fun contains :: "string \<Rightarrow> string \<Rightarrow> bool" where
  "contains [] sub = (sub = [])"
| "contains (c # s) sub = (if startswith (c # s) sub then True else contains s sub)"

text \<open>\<open>sep.join(xs)\<close>\<close>

fun join :: "string \<Rightarrow> string list \<Rightarrow> string" where
  "join sep [] = []"
| "join sep [x] = x"
| "join sep (x # y # ys) = x @ sep @ join sep (y # ys)"

text \<open>\<open>s.replace(a, b)\<close> for a one-character \<open>a\<close> and \<open>b\<close>.\<close>

definition replace_char :: "char \<Rightarrow> char \<Rightarrow> string \<Rightarrow> string" where
  "replace_char a b s = map (\<lambda>c. if c = a then b else c) s"

section \<open>The extractor object\<close>

text \<open>
  The attributes of \<open>DataExtractor\<close> that the parser and the scorer read.  A Python \<open>set\<close>
  is held as the list of its elements in the order its iteration yields them, a \<open>dict\<close>
  as an association list in insertion order.
\<close>

record data_extractor =
  regions :: "string list"
  region_countries :: "(string \<times> string list) list"
  country_synonyms :: "(string \<times> string) list"
  skip_prefixes :: "string list"

definition africa :: "string list" where
  "africa = [''South Africa'', ''Egypt'', ''Nigeria'', ''Kenya'', ''Morocco'', ''Ghana'',
     ''Ethiopia'', ''Tanzania'', ''Algeria'', ''Libya'', ''Tunisia'', ''Sudan'',
     ''Zimbabwe'', ''Botswana'', ''Namibia'', ''Zambia'', ''Senegal'', ''Mali'',
     ''Burkina Faso'', ''Niger'', ''Chad'', ''Cameroon'', ''Uganda'', ''Rwanda'',
     ''Democratic Republic of the Congo'', ''Republic of the Congo'',
     ''Central African Republic'', ''Gabon'', ''Equatorial Guinea'',
     ''S'' @ [CHR 0xE3] @ ''o Tom'' @ [CHR 0xE9] @ '' and Pr'' @ [CHR 0xED] @ ''ncipe'',
     ''Angola'', ''Mozambique'', ''Madagascar'',
     ''Mauritius'', ''Seychelles'', ''Comoros'', ''Djibouti'', ''Eritrea'',
     ''Somalia'', ''Ivory Coast'', ''Liberia'', ''Sierra Leone'', ''Guinea'',
     ''Guinea-Bissau'', ''Gambia'', ''Cape Verde'', ''Benin'', ''Togo'',
     ''Malawi'', ''Lesotho'', ''Eswatini'', ''Burundi'']"

definition asia :: "string list" where
  "asia = [''China'', ''Japan'', ''India'', ''South Korea'', ''North Korea'', ''Thailand'',
     ''Indonesia'', ''Philippines'', ''Vietnam'', ''Malaysia'', ''Singapore'',
     ''Myanmar'', ''Cambodia'', ''Laos'', ''Brunei'', ''East Timor'', ''Mongolia'',
     ''Taiwan'', ''Hong Kong'', ''Macau'', ''Afghanistan'', ''Pakistan'',
     ''Bangladesh'', ''Sri Lanka'', ''Maldives'', ''Nepal'', ''Bhutan'',
     ''Kazakhstan'', ''Uzbekistan'', ''Turkmenistan'', ''Tajikistan'',
     ''Kyrgyzstan'', ''Iran'', ''Iraq'', ''Syria'', ''Lebanon'', ''Jordan'',
     ''Israel'', ''Palestine'', ''Saudi Arabia'', ''Yemen'', ''Oman'',
     ''United Arab Emirates'', ''Qatar'', ''Bahrain'', ''Kuwait'', ''Turkey'',
     ''Cyprus'', ''Georgia'', ''Armenia'', ''Azerbaijan'', ''Russia'']"

definition europe :: "string list" where
  "europe = [''United Kingdom'', ''Germany'', ''France'', ''Italy'', ''Spain'', ''Netherlands'',
     ''Norway'', ''Sweden'', ''Denmark'', ''Finland'', ''Iceland'', ''Ireland'',
     ''Belgium'', ''Luxembourg'', ''Switzerland'', ''Austria'', ''Portugal'',
     ''Poland'', ''Czech Republic'', ''Slovakia'', ''Hungary'', ''Slovenia'',
     ''Croatia'', ''Bosnia and Herzegovina'', ''Serbia'', ''Montenegro'',
     ''North Macedonia'', ''Albania'', ''Kosovo'', ''Bulgaria'', ''Romania'',
     ''Moldova'', ''Ukraine'', ''Belarus'', ''Lithuania'', ''Latvia'', ''Estonia'',
     ''Greece'', ''Malta'', ''San Marino'', ''Vatican City'', ''Monaco'',
     ''Andorra'', ''Liechtenstein'']"

definition latin_america :: "string list" where
  "latin_america = [''Brazil'', ''Mexico'', ''Argentina'', ''Colombia'', ''Peru'', ''Chile'',
     ''Venezuela'', ''Ecuador'', ''Bolivia'', ''Paraguay'', ''Uruguay'',
     ''Guyana'', ''Suriname'', ''French Guiana'', ''Jamaica'', ''Cuba'',
     ''Dominican Republic'', ''Haiti'', ''Trinidad and Tobago'', ''Barbados'',
     ''Bahamas'', ''Belize'', ''Costa Rica'', ''Panama'', ''Nicaragua'',
     ''Honduras'', ''El Salvador'', ''Guatemala'', ''Puerto Rico'',
     ''Saint Lucia'', ''Saint Vincent and the Grenadines'', ''Grenada'',
     ''Antigua and Barbuda'', ''Saint Kitts and Nevis'', ''Dominica'']"

definition north_america :: "string list" where
  "north_america = [''United States'', ''Canada'', ''Greenland'']"

definition oceania :: "string list" where
  "oceania = [''Australia'', ''New Zealand'', ''Fiji'', ''Papua New Guinea'', ''Samoa'',
     ''Tonga'', ''Vanuatu'', ''Solomon Islands'', ''Palau'', ''Marshall Islands'',
     ''Micronesia'', ''Kiribati'', ''Tuvalu'', ''Nauru'', ''Cook Islands'']"

text \<open>The object that \<open>DataExtractor.__init__\<close> builds.  The sets are written in the
  order of the source text; Python leaves the iteration order of a set open, and it only
  decides which of several countries with the same best score \<open>max\<close> returns.\<close>

definition DataExtractor :: data_extractor where
  "DataExtractor = \<lparr>
     regions = [''Africa'', ''Antarctica'', ''Asia'', ''Europe'',
                ''Latin America and the Caribbean'', ''North America'', ''Oceania''],
     region_countries = [
       (''Africa'', africa),
       (''Antarctica'', [''Antarctica'']),
       (''Asia'', asia),
       (''Europe'', europe),
       (''Latin America and the Caribbean'', latin_america),
       (''North America'', north_america),
       (''Oceania'', oceania)],
     country_synonyms = [
       (''USA'', ''United States''),
       (''US'', ''United States''),
       (''America'', ''United States''),
       (''UK'', ''United Kingdom''),
       (''Britain'', ''United Kingdom''),
       (''England'', ''United Kingdom''),
       (''Scotland'', ''United Kingdom''),
       (''Wales'', ''United Kingdom''),
       (''Northern Ireland'', ''United Kingdom''),
       (''PRC'', ''China''),
       (''People'' @ [CHR 0x27] @ ''s Republic of China'', ''China''),
       (''ROC'', ''Taiwan''),
       (''Republic of China'', ''Taiwan''),
       (''South Korea'', ''South Korea''),
       (''Republic of Korea'', ''South Korea''),
       (''North Korea'', ''North Korea''),
       (''DPRK'', ''North Korea''),
       (''UAE'', ''United Arab Emirates''),
       (''Czech Republic'', ''Czech Republic''),
       (''Czechia'', ''Czech Republic''),
       (''DRC'', ''Democratic Republic of the Congo''),
       (''Congo-Kinshasa'', ''Democratic Republic of the Congo''),
       (''Congo-Brazzaville'', ''Republic of the Congo'')],
     skip_prefixes = [''file:'', ''image:'', ''category:'', ''wp:'', ''wikipedia:'',
                      ''template:'', '':category:'', ''commons:'']
   \<rparr>"

section \<open>Section Parser: \<open>extract_articles_from_section\<close>\<close>

text \<open>
  The pattern \<open>\[\[([^|\]]+)(?:\|[^\]]+)?\]\]\<close> tried at the head of \<open>s\<close>.  Both
  repetitions are greedy and run up to a character they exclude, so giving characters
  back never makes the rest of the pattern match: a shorter run is followed by a
  character that is neither \<open>|\<close> nor \<open>]\<close>.  The result is group 1 and the text after
  the match.
\<close>

definition link_char :: "char \<Rightarrow> bool" where
  "link_char c = (c \<noteq> CHR ''|'' \<and> c \<noteq> CHR '']'')"

definition display_char :: "char \<Rightarrow> bool" where
  "display_char c = (c \<noteq> CHR '']'')"

definition match_wikilink :: "string \<Rightarrow> (string \<times> string) option" where
  "match_wikilink s =
     (if startswith s ''[['' then
        (let body = drop 2 s;
             target = takeWhile link_char body;
             rest = dropWhile link_char body
         in if target = [] then None
            else if startswith rest '']]'' then Some (target, drop 2 rest)
            else (case rest of
                    [] \<Rightarrow> None
                  | c # rest1 \<Rightarrow>
                      if c = CHR ''|'' \<and> takeWhile display_char rest1 \<noteq> []
                         \<and> startswith (dropWhile display_char rest1) '']]''
                      then Some (target, drop 2 (dropWhile display_char rest1))
                      else None))
      else None)"

lemma match_wikilink_shorter:
  "match_wikilink s = Some (t, r) \<Longrightarrow> length r < length s"
proof -
  have dw: "length (dropWhile P xs) \<le> length xs" for P and xs :: string
    by (simp add: length_dropWhile_le)
  assume m: "match_wikilink s = Some (t, r)"
  then have sw: "startswith s ''[[''"
    by (auto simp: match_wikilink_def split: if_splits)
  then obtain body where s: "s = ''[['' @ body"
    by (auto simp: startswith_iff)
  from m s have "length r \<le> length body"
    using dw [of link_char body]
      dw [of display_char "tl (dropWhile link_char body)"]
    by (auto simp: match_wikilink_def Let_def split: if_splits list.splits)
  with s show ?thesis by simp
qed

text \<open>\<open>re.findall\<close> of the pattern: the matches from left to right, each search starting
  where the previous match ended; group 1 of each.\<close>

function findall_wikilinks :: "string \<Rightarrow> string list" where
  "findall_wikilinks [] = []"
| "findall_wikilinks (c # s) =
     (case match_wikilink (c # s) of
        Some (target, rest) \<Rightarrow> target # findall_wikilinks rest
      | None \<Rightarrow> findall_wikilinks s)"
  by pat_completeness auto
termination
  by (relation "measure length") (auto dest: match_wikilink_shorter)

text \<open>\<open>re.match(r'^(Category|Template|Help|Wikipedia):', article, re.IGNORECASE)\<close>\<close>

definition is_meta_page :: "string \<Rightarrow> bool" where
  "is_meta_page article =
     (\<exists>p \<in> set [''Category'', ''Template'', ''Help'', ''Wikipedia''].
        istartswith article (p @ '':''))"

text \<open>The filter loop of \<open>extract_articles_from_section\<close>.\<close>

definition keep_article :: "data_extractor \<Rightarrow> string \<Rightarrow> bool" where
  "keep_article self article =
     (article \<noteq> [] \<and> \<not> (\<exists>prefix \<in> set (skip_prefixes self). startswith (lower article) prefix)
      \<and> \<not> is_meta_page article)"

text \<open>The loop that removes duplicates and keeps the first occurrence.\<close>

fun unique_articles :: "string list \<Rightarrow> string list \<Rightarrow> string list" where
  "unique_articles seen [] = []"
| "unique_articles seen (article # articles) =
     (if article \<in> set seen then unique_articles seen articles
      else article # unique_articles (article # seen) articles)"

definition extract_articles_from_section :: "data_extractor \<Rightarrow> string \<Rightarrow> string \<Rightarrow> string list" where
  "extract_articles_from_section self section_content region_name =
     unique_articles [] (filter (keep_article self) (map strip (findall_wikilinks section_content)))"

section \<open>Region Splitter: \<open>parse_geographic_sections\<close>\<close>

text \<open>
  The pattern \<open>===\s*REGION\s*===(.*?)(?====|\Z)\<close> with \<open>re.DOTALL | re.IGNORECASE\<close>,
  \<open>REGION\<close> being the escaped region name, a literal.  \<open>after_spaces s\<close> lists what
  \<open>\s*\<close> can leave of \<open>s\<close>, the longest run of white space first, as the matcher tries.
\<close>

definition after_spaces :: "string \<Rightarrow> string list" where
  "after_spaces s = map (\<lambda>n. drop n s) (rev [0 ..< Suc (length (takeWhile isspace s))])"

text \<open>The header \<open>===\s*REGION\s*===\<close> at the head of \<open>s\<close>: the text after it, for the
  first way of matching that succeeds.\<close>

definition match_header :: "string \<Rightarrow> string \<Rightarrow> string option" where
  "match_header region s =
     (if startswith s ''==='' then
        (case concat (map (\<lambda>s2. if istartswith s2 region
                                  then filter (\<lambda>s4. startswith s4 ''==='')
                                         (after_spaces (drop (length region) s2))
                                  else [])
                       (after_spaces (drop 3 s))) of
           [] \<Rightarrow> None
         | s4 # _ \<Rightarrow> Some (drop 3 s4))
      else None)"

text \<open>The lazy group \<open>(.*?)\<close> before \<open>(?====|\Z)\<close>: the text up to the next \<open>===\<close>, or
  all of it.\<close>

fun section_body :: "string \<Rightarrow> string" where
  "section_body [] = []"
| "section_body (c # s) = (if startswith (c # s) ''==='' then [] else c # section_body s)"

text \<open>\<open>re.search\<close>: the leftmost match; \<open>match.group(1)\<close>, or \<open>None\<close> without a match.\<close>

fun search_section :: "string \<Rightarrow> string \<Rightarrow> string option" where
  "search_section region [] = None"
| "search_section region (c # s) =
     (case match_header region (c # s) of
        Some rest \<Rightarrow> Some (section_body rest)
      | None \<Rightarrow> search_section region s)"

text \<open>One round of the loop over \<open>self.regions\<close>.\<close>

definition parse_region ::
  "data_extractor \<Rightarrow> string \<Rightarrow> string \<Rightarrow> (string \<times> string list) list \<Rightarrow> (string \<times> string list) list" where
  "parse_region self content region geographic_articles =
     (case search_section region content of
        Some section_content \<Rightarrow>
          (let articles = extract_articles_from_section self section_content region
           in if articles \<noteq> [] then AList.update region articles geographic_articles
              else geographic_articles)
      | None \<Rightarrow> geographic_articles)"

definition parse_geographic_sections :: "data_extractor \<Rightarrow> string \<Rightarrow> (string \<times> string list) list" where
  "parse_geographic_sections self content =
     (if content = [] then [] else fold (parse_region self content) (regions self) [])"

section \<open>Attribution Scorer: \<open>identify_country_from_context\<close>\<close>

text \<open>
  Scores and confidences are Python floats whose values are small whole numbers and
  quotients of them by 50; they are modelled as rationals.
\<close>

text \<open>The analysis text:
  \<open>f"{article_title} {article_extract} {' '.join(categories)}".lower()\<close>\<close>

definition full_text_of :: "string \<Rightarrow> string \<Rightarrow> string list \<Rightarrow> string" where
  "full_text_of article_title article_extract categories =
     lower (article_title @ '' '' @ article_extract @ '' '' @ join '' '' categories)"

text \<open>
  The pattern \<open>\bLITERAL\b\<close> at one position of the text: \<open>prev\<close> is the character
  before the position (none at the start), \<open>s\<close> the text from the position on.  \<open>\b\<close>
  holds where exactly one of the two neighbouring characters is a word character, a
  missing neighbour counting as none.
\<close>

definition word_opt :: "char option \<Rightarrow> bool" where
  "word_opt c = (case c of None \<Rightarrow> False | Some d \<Rightarrow> isword d)"

definition head_opt :: "string \<Rightarrow> char option" where
  "head_opt s = (case s of [] \<Rightarrow> None | c # _ \<Rightarrow> Some c)"

definition match_word :: "char option \<Rightarrow> string \<Rightarrow> string \<Rightarrow> bool" where
  "match_word prev literal s =
     (if startswith s literal
      then word_opt prev \<noteq> word_opt (head_opt s) \<and>
           word_opt (if literal = [] then prev else Some (last literal))
             \<noteq> word_opt (head_opt (drop (length literal) s))
      else False)"

text \<open>
  \<open>len(re.findall(...))\<close>: the matches are counted from left to right; after a match the
  search goes on where the match ended (\<open>skip\<close> counts the characters of the match still
  to pass), after an empty match or none one character further.
\<close>

fun count_words :: "nat \<Rightarrow> char option \<Rightarrow> string \<Rightarrow> string \<Rightarrow> nat" where
  "count_words skip prev literal [] =
     (if skip = 0 \<and> match_word prev literal [] then 1 else 0)"
| "count_words skip prev literal (c # s) =
     (if 0 < skip then count_words (skip - 1) (Some c) literal s
      else if match_word prev literal (c # s)
           then 1 + count_words (length literal - 1) (Some c) literal s
           else count_words 0 (Some c) literal s)"

definition country_mentions :: "string \<Rightarrow> string \<Rightarrow> nat" where
  "country_mentions country_lower full_text = count_words 0 None country_lower full_text"

text \<open>The loop over the categories, the score passed through.\<close>

fun category_scoring :: "string \<Rightarrow> string list \<Rightarrow> rat \<Rightarrow> rat" where
  "category_scoring country_lower [] score = score"
| "category_scoring country_lower (category # categories) score =
     (let cat_lower = lower category
      in category_scoring country_lower categories
           (if contains cat_lower country_lower then
              (if \<exists>pattern \<in> set [''in '' @ country_lower, country_lower @ '' '',
                                     ''of '' @ country_lower]. contains cat_lower pattern
               then score + 20 + 30 else score + 20)
            else score))"

text \<open>The body of the loop over the countries of the region, up to the final test.\<close>

definition country_score :: "string \<Rightarrow> string \<Rightarrow> string list \<Rightarrow> string \<Rightarrow> string \<Rightarrow> rat" where
  "country_score article_title article_extract categories full_text country =
     (let country_lower = lower country;
          score0 = 0 + of_nat (country_mentions country_lower full_text) * 10;
          score1 = category_scoring country_lower categories score0;
          score2 = (if contains (lower article_title) country_lower then score1 + 15 else score1);
          score3 = (if contains (lower article_extract) country_lower then score2 + 5 else score2)
      in score3)"

text \<open>\<open>d.get(k, 0)\<close> on the dictionary of scores.\<close>

definition get_score :: "(string \<times> rat) list \<Rightarrow> string \<Rightarrow> rat" where
  "get_score country_scores k = (case map_of country_scores k of None \<Rightarrow> 0 | Some v \<Rightarrow> v)"

text \<open>\<open>country_scores[k] = country_scores.get(k, 0) + w\<close>\<close>

definition add_score :: "string \<Rightarrow> rat \<Rightarrow> (string \<times> rat) list \<Rightarrow> (string \<times> rat) list" where
  "add_score k w country_scores = AList.update k (get_score country_scores k + w) country_scores"

definition score_countries ::
  "string \<Rightarrow> string \<Rightarrow> string list \<Rightarrow> string \<Rightarrow> string list \<Rightarrow> (string \<times> rat) list" where
  "score_countries article_title article_extract categories full_text candidates =
     fold (\<lambda>country country_scores.
             (let score = country_score article_title article_extract categories full_text country
              in if 0 < score then AList.update country score country_scores
                 else country_scores))
          candidates []"

definition check_synonyms ::
  "data_extractor \<Rightarrow> string \<Rightarrow> string list \<Rightarrow> (string \<times> rat) list \<Rightarrow> (string \<times> rat) list" where
  "check_synonyms self full_text candidates country_scores =
     fold (\<lambda>(synonym, canonical) scores.
             if canonical \<in> set candidates \<and> contains full_text (lower synonym)
             then add_score canonical 8 scores else scores)
          (country_synonyms self) country_scores"

text \<open>\<open>_apply_special_location_rules\<close> changes the dictionary it is given; the model
  returns the changed dictionary.  \<open>any_in\<close> is \<open>any(term in full_text for term in terms)\<close>.\<close>

definition any_in :: "string list \<Rightarrow> string \<Rightarrow> bool" where
  "any_in terms full_text = (\<exists>term \<in> set terms. contains full_text term)"

definition hong_kong_macau :: "string \<Rightarrow> (string \<times> rat) list \<Rightarrow> (string \<times> rat) list" where
  "hong_kong_macau full_text country_scores =
     (let scores1 = (if contains full_text ''hong kong''
                     then add_score ''Hong Kong'' 50 country_scores else country_scores)
      in if contains full_text ''macau'' \<or> contains full_text ''macao''
         then add_score ''Macau'' 50 scores1 else scores1)"

text \<open>The condition \<open>'taiwan' in full_text or 'republic of china' in full_text\<close>.\<close>

definition taiwan_marker :: "string \<Rightarrow> bool" where
  "taiwan_marker full_text =
     (contains full_text ''taiwan'' \<or> contains full_text ''republic of china'')"

definition taiwan_china :: "string \<Rightarrow> (string \<times> rat) list \<Rightarrow> (string \<times> rat) list" where
  "taiwan_china full_text country_scores =
     (if taiwan_marker full_text
      then add_score ''Taiwan'' 40 country_scores
      else if contains full_text ''mainland china''
              \<or> contains full_text (''people'' @ [CHR 0x27] @ ''s republic'')
      then add_score ''China'' 40 country_scores
      else country_scores)"

definition uk_constituents :: "string \<Rightarrow> (string \<times> rat) list \<Rightarrow> (string \<times> rat) list" where
  "uk_constituents full_text country_scores =
     (let scores1 = (if any_in [''england'', ''english'', ''london''] full_text
                     then add_score ''United Kingdom'' 30 country_scores else country_scores);
          scores2 = (if any_in [''scotland'', ''scottish'', ''edinburgh''] full_text
                     then add_score ''United Kingdom'' 30 scores1 else scores1);
          scores3 = (if any_in [''wales'', ''welsh'', ''cardiff''] full_text
                     then add_score ''United Kingdom'' 30 scores2 else scores2)
      in if contains full_text ''northern ireland''
         then add_score ''United Kingdom'' 30 scores3 else scores3)"

text \<open>The condition
  \<open>any(term in full_text for term in ['united states', ' usa ', ' us ', 'american'])\<close>.\<close>

definition us_marker :: "string \<Rightarrow> bool" where
  "us_marker full_text = any_in [''united states'', '' usa '', '' us '', ''american''] full_text"

definition us_canada :: "string \<Rightarrow> string \<Rightarrow> (string \<times> rat) list \<Rightarrow> (string \<times> rat) list" where
  "us_canada full_text region country_scores =
     (if region = ''North America'' then
        (if us_marker full_text
         then add_score ''United States'' 25 country_scores
         else if any_in [''canada'', ''canadian''] full_text
         then add_score ''Canada'' 25 country_scores
         else country_scores)
      else country_scores)"

definition apply_special_location_rules ::
  "string \<Rightarrow> string list \<Rightarrow> (string \<times> rat) list \<Rightarrow> string \<Rightarrow> (string \<times> rat) list" where
  "apply_special_location_rules full_text categories country_scores region =
     us_canada full_text region
       (uk_constituents full_text (taiwan_china full_text (hong_kong_macau full_text country_scores)))"

text \<open>\<open>max(country_scores, key=country_scores.get)\<close>: the first key, in insertion order,
  whose value no other exceeds.\<close>

fun max_key :: "string \<times> rat \<Rightarrow> (string \<times> rat) list \<Rightarrow> string \<times> rat" where
  "max_key best [] = best"
| "max_key best (kv # rest) = (if snd best < snd kv then max_key kv rest else max_key best rest)"

text \<open>\<open>self.region_countries.get(region, set())\<close>\<close>

definition candidates_of :: "data_extractor \<Rightarrow> string \<Rightarrow> string list" where
  "candidates_of self region =
     (case map_of (region_countries self) region of None \<Rightarrow> [] | Some cs \<Rightarrow> cs)"

text \<open>The dictionary of scores before the final choice.\<close>

definition country_scores_of ::
  "data_extractor \<Rightarrow> string \<Rightarrow> string \<Rightarrow> string list \<Rightarrow> string \<Rightarrow> (string \<times> rat) list" where
  "country_scores_of self article_title article_extract categories region =
     (let full_text = full_text_of article_title article_extract categories;
          candidates = candidates_of self region;
          scores1 = score_countries article_title article_extract categories full_text candidates;
          scores2 = check_synonyms self full_text candidates scores1
      in apply_special_location_rules full_text categories scores2 region)"

definition identify_country_from_context ::
  "data_extractor \<Rightarrow> string \<Rightarrow> string \<Rightarrow> string list \<Rightarrow> string \<Rightarrow> string option \<times> rat" where
  "identify_country_from_context self article_title article_extract categories region =
     (case country_scores_of self article_title article_extract categories region of
        [] \<Rightarrow> (None, 0)
      | kv # rest \<Rightarrow>
          (let best = max_key kv rest
           in (Some (fst best), min (snd best / 50) 1)))"



section \<open>Enrichment: \<open>get_enhanced_article_info\<close>\<close>

text \<open>
  The two requests to Wikipedia are answered by a collaborator, a parameter of the model.
  \<open>page_summary\<close> answers the summary request for a cleaned title: the request or the
  decoding of its answer raises, or there is a status code and, read only for status 200,
  the JSON object.  \<open>article_categories\<close> is the result of \<open>get_article_categories\<close>,
  which catches its own exceptions.
\<close>

record summary =
  summary_title :: "string option"
  summary_description :: "string option"
  summary_extract :: "string option"
  summary_page :: "string option"
  summary_thumbnail :: "string option"

datatype response = Raised | Response nat summary

record wikipedia =
  page_summary :: "string \<Rightarrow> response"
  article_categories :: "string \<Rightarrow> string list"

record article_info =
  info_id :: string
  info_title :: string
  info_description :: string
  info_extract :: string
  info_url :: string
  info_thumbnail :: "string option"
  source_region :: string
  identified_country :: "string option"
  country_confidence :: rat
  info_categories :: "string list"
  has_geographic_categories :: bool
  category_count :: nat

text \<open>\<open>data.get(key, default)\<close>\<close>

definition get_or :: "'a option \<Rightarrow> 'a \<Rightarrow> 'a" where
  "get_or v dflt = (case v of None \<Rightarrow> dflt | Some x \<Rightarrow> x)"

text \<open>\<open>round(x, 2)\<close>: to the nearest multiple of a hundredth, a tie to the even one.\<close>

definition round_half_even :: "rat \<Rightarrow> int" where
  "round_half_even y =
     (let f = \<lfloor>y\<rfloor>; d = y - of_int f
      in if d < 1 / 2 then f else if 1 / 2 < d then f + 1 else if even f then f else f + 1)"

definition round2 :: "rat \<Rightarrow> rat" where
  "round2 x = of_int (round_half_even (x * 100)) / 100"

definition wiki_url :: "string \<Rightarrow> string" where
  "wiki_url clean_title = ''https://en.wikipedia.org/wiki/'' @ clean_title"

definition create_fallback_enhanced_info :: "string \<Rightarrow> string \<Rightarrow> article_info" where
  "create_fallback_enhanced_info article_title region =
     \<lparr> info_id = replace_char CHR '' '' CHR ''_'' (lower article_title),
       info_title = article_title,
       info_description = ''Unusual Wikipedia article'',
       info_extract = [],
       info_url = wiki_url (replace_char CHR '' '' CHR ''_'' article_title),
       info_thumbnail = None,
       source_region = region,
       identified_country = None,
       country_confidence = 0,
       info_categories = [],
       has_geographic_categories = False,
       category_count = 0 \<rparr>"

definition get_enhanced_article_info ::
  "data_extractor \<Rightarrow> wikipedia \<Rightarrow> string \<Rightarrow> string \<Rightarrow> article_info" where
  "get_enhanced_article_info self wiki article_title region =
     (let clean_title = replace_char CHR '' '' CHR ''_'' article_title
      in case page_summary wiki clean_title of
           Raised \<Rightarrow> create_fallback_enhanced_info article_title region
         | Response status_code data \<Rightarrow>
             (let ok = (status_code = 200);
                  basic_title = (if ok then get_or (summary_title data) article_title
                                 else article_title);
                  basic_description = (if ok then get_or (summary_description data) []
                                       else ''Unusual Wikipedia article'');
                  basic_extract = (if ok then get_or (summary_extract data) [] else []);
                  basic_url = (if ok then get_or (summary_page data) (wiki_url clean_title)
                               else wiki_url clean_title);
                  basic_thumbnail = (if ok then summary_thumbnail data else None);
                  categories = article_categories wiki article_title;
                  result = identify_country_from_context self article_title basic_extract
                             categories region
              in \<lparr> info_id = replace_char CHR '' '' CHR ''_'' (lower article_title),
                   info_title = basic_title,
                   info_description = basic_description,
                   info_extract = (if 300 < length basic_extract
                                   then take 300 basic_extract @ ''...'' else basic_extract),
                   info_url = basic_url,
                   info_thumbnail = basic_thumbnail,
                   source_region = region,
                   identified_country = fst result,
                   country_confidence = round2 (snd result),
                   info_categories = take 10 categories,
                   has_geographic_categories =
                     (\<exists>cat \<in> set categories. contains (lower cat) ''geography''
                                              \<or> contains (lower cat) ''location''),
                   category_count = length categories \<rparr>))"

section \<open>Aggregator: \<open>organize_by_countries\<close>\<close>

text \<open>The test \<open>identified_country and article_info['country_confidence'] > 0.1\<close>; an
  optional string is true when it is a string and not the empty one.\<close>

definition assigned :: "article_info \<Rightarrow> bool" where
  "assigned info =
     ((case identified_country info of None \<Rightarrow> False | Some c \<Rightarrow> c \<noteq> [])
      \<and> 1 / 10 < country_confidence info)"

text \<open>The body of the inner loop, on the pair of \<open>country_articles\<close> and
  \<open>unidentified_articles\<close>.\<close>

text \<open>The list stored for a key of \<open>country_articles\<close>, none read as the empty list.\<close>

definition get_bucket :: "(string \<times> article_info list) list \<Rightarrow> string \<Rightarrow> article_info list" where
  "get_bucket country_articles k =
     (case map_of country_articles k of None \<Rightarrow> [] | Some b \<Rightarrow> b)"

definition route_article ::
  "article_info \<Rightarrow> (string \<times> article_info list) list \<times> article_info list
     \<Rightarrow> (string \<times> article_info list) list \<times> article_info list" where
  "route_article info state =
     (let country_articles = fst state; unidentified_articles = snd state
      in if assigned info then
           (let country = the (identified_country info);
                bucket = get_bucket country_articles country
            in (AList.update country (bucket @ [info]) country_articles, unidentified_articles))
         else (country_articles, unidentified_articles @ [info]))"

definition organize_region ::
  "data_extractor \<Rightarrow> wikipedia \<Rightarrow> string \<times> string list
     \<Rightarrow> (string \<times> article_info list) list \<times> article_info list
     \<Rightarrow> (string \<times> article_info list) list \<times> article_info list" where
  "organize_region self wiki entry state =
     fold (\<lambda>article_title. route_article (get_enhanced_article_info self wiki article_title (fst entry)))
          (snd entry) state"

text \<open>The records that the two loops of \<open>organize_by_countries\<close> compute, in the order
  of the loops.\<close>

definition scored_articles ::
  "data_extractor \<Rightarrow> wikipedia \<Rightarrow> (string \<times> string list) list \<Rightarrow> article_info list" where
  "scored_articles self wiki regional_articles =
     concat (map (\<lambda>entry. map (\<lambda>article_title.
                                  get_enhanced_article_info self wiki article_title (fst entry))
                               (snd entry))
                 regional_articles)"

definition organize_by_countries ::
  "data_extractor \<Rightarrow> wikipedia \<Rightarrow> (string \<times> string list) list
     \<Rightarrow> (string \<times> article_info list) list" where
  "organize_by_countries self wiki regional_articles =
     (let final = fold (organize_region self wiki) regional_articles ([], []);
          country_articles = fst final; unidentified_articles = snd final
      in if unidentified_articles \<noteq> []
         then AList.update ''Unidentified'' unidentified_articles country_articles
         else country_articles)"

section \<open>Properties of the Section Parser\<close>

lemma match_wikilink_no_bracket:
  "c \<noteq> CHR ''['' \<Longrightarrow> match_wikilink (c # s) = None"
  by (simp add: match_wikilink_def)

lemma findall_wikilinks_skip:
  "CHR ''['' \<notin> set pre \<Longrightarrow> findall_wikilinks (pre @ s) = findall_wikilinks s"
  by (induction pre) (auto simp: match_wikilink_no_bracket)

lemma findall_wikilinks_none:
  "CHR ''['' \<notin> set s \<Longrightarrow> findall_wikilinks s = []"
  using findall_wikilinks_skip [of s "[]"] by simp

lemma takeWhile_run:
  "\<forall>c \<in> set t. P c \<Longrightarrow> takeWhile P (t @ x # s) = (if P x then t @ takeWhile P (x # s) else t)"
  by (induction t) auto

lemma dropWhile_run:
  "\<forall>c \<in> set t. P c \<Longrightarrow> dropWhile P (t @ x # s) = (if P x then dropWhile P (x # s) else x # s)"
  by (induction t) auto

lemma match_wikilink_plain:
  assumes "t \<noteq> []" and "\<forall>c \<in> set t. link_char c"
  shows "match_wikilink (''[['' @ t @ '']]'' @ s) = Some (t, s)"
  using assms takeWhile_run [of t link_char "CHR '']''" "CHR '']'' # s"]
    dropWhile_run [of t link_char "CHR '']''" "CHR '']'' # s"]
  by (simp add: match_wikilink_def link_char_def)

lemma match_wikilink_piped:
  assumes "t \<noteq> []" and "\<forall>c \<in> set t. link_char c"
    and "d \<noteq> []" and "\<forall>c \<in> set d. display_char c"
  shows "match_wikilink (''[['' @ t @ ''|'' @ d @ '']]'' @ s) = Some (t, s)"
  using assms takeWhile_run [of t link_char "CHR ''|''" "d @ '']]'' @ s"]
    dropWhile_run [of t link_char "CHR ''|''" "d @ '']]'' @ s"]
    takeWhile_run [of d display_char "CHR '']''" "CHR '']'' # s"]
    dropWhile_run [of d display_char "CHR '']''" "CHR '']'' # s"]
  by (cases d) (simp_all add: match_wikilink_def link_char_def display_char_def)


lemma findall_wikilinks_links:
  assumes "\<forall>(pre, t, d) \<in> set links. CHR ''['' \<notin> set pre \<and> t \<noteq> [] \<and>
             (\<forall>c \<in> set t. link_char c) \<and> (\<forall>c \<in> set d. display_char c)"
  shows "findall_wikilinks
           (concat (map (\<lambda>(pre, t, d). pre @ ''[['' @ t @ (if d = [] then [] else ''|'' @ d) @ '']]'')
                        links) @ post)
         = map (\<lambda>(pre, t, d). t) links @ findall_wikilinks post"
  using assms
proof (induction links)
  case Nil
  then show ?case by simp
next
  case (Cons l links)
  obtain pre t d where l: "l = (pre, t, d)" by (cases l) auto
  let ?rest = "concat (map (\<lambda>(pre, t, d). pre @ ''[['' @ t @ (if d = [] then [] else ''|'' @ d) @ '']]'')
                        links) @ post"
  from Cons.prems l have pre: "CHR ''['' \<notin> set pre" and t: "t \<noteq> []" "\<forall>c \<in> set t. link_char c"
    and d: "\<forall>c \<in> set d. display_char c" by auto
  have m: "match_wikilink (''[['' @ t @ (if d = [] then [] else ''|'' @ d) @ '']]'' @ ?rest) = Some (t, ?rest)"
    using match_wikilink_plain [OF t, of ?rest] match_wikilink_piped [OF t _ d, of ?rest]
    by (cases "d = []") simp_all
  have "findall_wikilinks (''[['' @ t @ (if d = [] then [] else ''|'' @ d) @ '']]'' @ ?rest)
        = t # findall_wikilinks ?rest"
    using m by simp
  moreover have "findall_wikilinks ?rest = map (\<lambda>(pre, t, d). t) links @ findall_wikilinks post"
    using Cons by simp
  ultimately show ?case
    using findall_wikilinks_skip [OF pre, of "''[['' @ t @ (if d = [] then [] else ''|'' @ d) @ '']]'' @ ?rest"]
    by (simp add: l)
qed

text \<open>
  Claim C3, as the specification states it: the parser strips a trailing \<open>#...\<close> fragment
  or \<open>?...\<close> query from each link target.  The code has no such step: the target
  \<open>Fictitious Temple#History\<close> is returned with its fragment.
\<close>

theorem fragment_not_stripped:
  "extract_articles_from_section DataExtractor ''[[Fictitious Temple#History]]'' ''Asia''
   = [''Fictitious Temple#History'']"
  by code_simp

text \<open>
  Claim C3, amended: in a section made of wiki links, each preceded by text without an
  opening bracket, the titles are the link targets (the part before the optional pipe and
  display text) with the surrounding white space trimmed and nothing else removed, then
  filtered and freed of duplicates.  A \<open>#\<close> or \<open>?\<close> in a target stays in the title.
\<close>

theorem link_targets_kept_as_written:
  assumes "\<forall>(pre, t, d) \<in> set links. CHR ''['' \<notin> set pre \<and> t \<noteq> [] \<and>
             (\<forall>c \<in> set t. link_char c) \<and> (\<forall>c \<in> set d. display_char c)"
    and "CHR ''['' \<notin> set post"
  shows "extract_articles_from_section self
           (concat (map (\<lambda>(pre, t, d). pre @ ''[['' @ t @ (if d = [] then [] else ''|'' @ d) @ '']]'')
                        links) @ post) region_name
         = unique_articles [] (filter (keep_article self) (map (\<lambda>(pre, t, d). strip t) links))"
proof -
  have "map strip (map (\<lambda>(pre, t, d). t) links) = map (\<lambda>(pre, t, d). strip t) links"
    by (induction links) auto
  moreover have "findall_wikilinks
           (concat (map (\<lambda>(pre, t, d). pre @ ''[['' @ t @ (if d = [] then [] else ''|'' @ d) @ '']]'')
                        links) @ post) = map (\<lambda>(pre, t, d). t) links"
    using findall_wikilinks_links [OF assms(1), of post] findall_wikilinks_none [OF assms(2)]
    by simp
  ultimately show ?thesis
    by (simp only: extract_articles_from_section_def)
qed

text \<open>The amended claim at a section with a fragment, a query, a pipe and white space.\<close>

theorem link_targets_kept_as_written_witness:
  "extract_articles_from_section DataExtractor
     (''See [[Fictitious Temple#History]] and [[ Odd Bridge?action=raw |the bridge]].'') ''Asia''
   = [''Fictitious Temple#History'', ''Odd Bridge?action=raw'']"
proof -
  have e: "unique_articles [] (filter (keep_article DataExtractor)
             (map (\<lambda>(pre, t, d). strip t)
                [(''See '', ''Fictitious Temple#History'', []),
                 ('' and '', '' Odd Bridge?action=raw '', ''the bridge'')]))
           = [''Fictitious Temple#History'', ''Odd Bridge?action=raw'']"
    by code_simp
  have h: "\<forall>(pre, t, d) \<in> set [(''See '', ''Fictitious Temple#History'', []),
                 ('' and '', '' Odd Bridge?action=raw '', ''the bridge'')].
             CHR ''['' \<notin> set pre \<and> t \<noteq> [] \<and>
             (\<forall>c \<in> set t. link_char c) \<and> (\<forall>c \<in> set d. display_char c)"
    by (simp add: link_char_def display_char_def)
  have p: "CHR ''['' \<notin> set ''.''" by simp
  show ?thesis
    using link_targets_kept_as_written [OF h p, of DataExtractor "''Asia''"] e by simp
qed

section \<open>Properties of the Region Splitter\<close>

lemma map_of_parse_region_other:
  "r \<noteq> region \<Longrightarrow> map_of (parse_region self content r acc) region = map_of acc region"
  by (simp add: parse_region_def update_conv' Let_def split: option.splits)

lemma map_of_parse_region_empty:
  "search_section region content = Some sec \<Longrightarrow>
   extract_articles_from_section self sec region = [] \<Longrightarrow>
   parse_region self content region acc = acc"
  by (simp add: parse_region_def)

lemma map_of_fold_parse_region:
  assumes "search_section region content = Some sec"
    and "extract_articles_from_section self sec region = []"
  shows "map_of (fold (parse_region self content) rs acc) region = map_of acc region"
proof (induction rs arbitrary: acc)
  case Nil
  then show ?case by simp
next
  case (Cons r rs)
  show ?case
  proof (cases "r = region")
    case True
    then show ?thesis
      using Cons map_of_parse_region_empty [OF assms] by simp
  next
    case False
    then show ?thesis
      using Cons map_of_parse_region_other [of r region self content acc] by simp
  qed
qed

text \<open>
  Claim C7, as the specification states it: a region whose header is found and whose
  section yields no title is a key of the resulting mapping, with the empty list.  On the
  page \<open>=== Europe ===\<close> the header of Europe is found, its section is empty and yields no
  title, and the mapping has no key \<open>Europe\<close>.
\<close>

theorem empty_section_not_a_key:
  "search_section ''Europe'' ''=== Europe ==='' = Some []
   \<and> extract_articles_from_section DataExtractor [] ''Europe'' = []
   \<and> map_of (parse_geographic_sections DataExtractor ''=== Europe ==='') ''Europe'' = None"
  by code_simp

text \<open>
  Claim C7, amended: for every page text and every region whose section header is found
  but whose section yields no title, nothing fails and the resulting mapping has no key
  for that region (\<open>parse_geographic_sections\<close> stores a region only \<open>if articles\<close>).
\<close>

theorem empty_section_region_omitted:
  assumes "search_section region content = Some sec"
    and "extract_articles_from_section self sec region = []"
  shows "map_of (parse_geographic_sections self content) region = None"
  using map_of_fold_parse_region [OF assms, of "regions self" "[]"]
  by (simp add: parse_geographic_sections_def)

text \<open>The amended claim on a page whose Europe section holds only a file link.\<close>

theorem empty_section_region_omitted_witness:
  "search_section ''Europe'' ''=== Europe === [[File:map.png]]'' = Some '' [[File:map.png]]''
   \<and> extract_articles_from_section DataExtractor '' [[File:map.png]]'' ''Europe'' = []
   \<and> map_of (parse_geographic_sections DataExtractor ''=== Europe === [[File:map.png]]'') ''Europe'' = None"
proof -
  have a: "search_section ''Europe'' ''=== Europe === [[File:map.png]]'' = Some '' [[File:map.png]]''"
    by code_simp
  have b: "extract_articles_from_section DataExtractor '' [[File:map.png]]'' ''Europe'' = []"
    by code_simp
  show ?thesis
    using a b empty_section_region_omitted [OF a b] by simp
qed

text \<open>
  Claim C8, end-to-end scenario A: on the markup
  \<open>=== Asia ===\n[[Fictitious Temple]] [[File:pic.jpg]] [[Fictitious Temple]]\n=== Europe ===\<close>
  the section found for Asia yields exactly the list with the one title
  \<open>Fictitious Temple\<close>, and the section found for Europe yields the empty list.
\<close>

theorem scenario_a_sections:
  "map_option (\<lambda>section_content. extract_articles_from_section DataExtractor section_content ''Asia'')
     (search_section ''Asia''
        (''=== Asia ==='' @ [CHR 0x0A] @
         ''[[Fictitious Temple]] [[File:pic.jpg]] [[Fictitious Temple]]'' @ [CHR 0x0A] @
         ''=== Europe ===''))
   = Some [''Fictitious Temple'']
   \<and> map_option (\<lambda>section_content. extract_articles_from_section DataExtractor section_content ''Europe'')
     (search_section ''Europe''
        (''=== Asia ==='' @ [CHR 0x0A] @
         ''[[Fictitious Temple]] [[File:pic.jpg]] [[Fictitious Temple]]'' @ [CHR 0x0A] @
         ''=== Europe ===''))
   = Some []"
  by code_simp

section \<open>Properties of the Attribution Scorer\<close>

text \<open>An invariant of the dictionary of scores: every key is in \<open>K\<close> and every value is
  at least 5.\<close>

definition scores_ok :: "string set \<Rightarrow> (string \<times> rat) list \<Rightarrow> bool" where
  "scores_ok K d = (\<forall>(k, v) \<in> set d. k \<in> K \<and> 5 \<le> v)"

lemma set_update_cases:
  "(a, b) \<in> set (AList.update k v d) \<Longrightarrow> (a, b) = (k, v) \<or> (a, b) \<in> set d"
  by (induction d) (auto split: if_splits)

lemma scores_ok_empty: "scores_ok K []"
  by (simp add: scores_ok_def)

lemma scores_ok_update:
  "k \<in> K \<Longrightarrow> 5 \<le> v \<Longrightarrow> scores_ok K d \<Longrightarrow> scores_ok K (AList.update k v d)"
  unfolding scores_ok_def using set_update_cases by fastforce

lemma get_score_nonneg: "scores_ok K d \<Longrightarrow> 0 \<le> get_score d k"
  by (fastforce simp: scores_ok_def get_score_def split: option.splits dest: map_of_SomeD)

lemma scores_ok_add_score:
  "k \<in> K \<Longrightarrow> 5 \<le> w \<Longrightarrow> scores_ok K d \<Longrightarrow> scores_ok K (add_score k w d)"
  unfolding add_score_def using get_score_nonneg [of K d k]
  by (intro scores_ok_update) auto

lemma category_scoring_cases:
  "category_scoring cl cs s = s \<or> s + 20 \<le> category_scoring cl cs s"
proof (induction cs arbitrary: s)
  case Nil
  then show ?case by simp
next
  case (Cons c cs)
  let ?s1 = "(if contains (lower c) cl then
              (if \<exists>pattern \<in> set [''in '' @ cl, cl @ '' '', ''of '' @ cl]. contains (lower c) pattern
               then s + 20 + 30 else s + 20) else s)"
  have step: "category_scoring cl (c # cs) s = category_scoring cl cs ?s1"
    by (simp add: Let_def)
  have s1: "?s1 = s \<or> s + 20 \<le> ?s1" by auto
  from Cons [of ?s1] s1 show ?case
    unfolding step by linarith
qed

lemma country_score_ge5:
  assumes "0 < country_score t e cs ft c"
  shows "5 \<le> country_score t e cs ft c"
proof -
  let ?n = "country_mentions (lower c) ft"
  let ?s0 = "(of_nat ?n * 10 :: rat)"
  let ?s1 = "category_scoring (lower c) cs ?s0"
  have n: "?s0 = 0 \<or> 10 \<le> ?s0"
    by (cases ?n) (auto simp: algebra_simps)
  have c: "?s1 = ?s0 \<or> ?s0 + 20 \<le> ?s1"
    by (rule category_scoring_cases)
  from assms n c show ?thesis
    by (auto simp: country_score_def Let_def split: if_splits)
qed

lemma scores_ok_score_countries:
  "scores_ok (set cands \<union> S) (score_countries t e cs ft cands)"
proof -
  have "scores_ok (set cands \<union> S) acc \<Longrightarrow> set xs \<subseteq> set cands \<Longrightarrow>
        scores_ok (set cands \<union> S)
          (fold (\<lambda>country country_scores.
             (let score = country_score t e cs ft country
              in if 0 < score then AList.update country score country_scores
                 else country_scores)) xs acc)" for xs acc
    by (induction xs arbitrary: acc) (auto simp: Let_def scores_ok_update country_score_ge5)
  from this [of "[]" cands] show ?thesis
    by (simp add: score_countries_def scores_ok_empty)
qed

lemma scores_ok_check_synonyms:
  "scores_ok (set cands \<union> S) d \<Longrightarrow> scores_ok (set cands \<union> S) (check_synonyms self ft cands d)"
proof -
  have "scores_ok (set cands \<union> S) acc \<Longrightarrow>
        scores_ok (set cands \<union> S)
          (fold (\<lambda>(synonym, canonical) scores.
             if canonical \<in> set cands \<and> contains ft (lower synonym)
             then add_score canonical 8 scores else scores) xs acc)" for xs acc
    by (induction xs arbitrary: acc) (auto simp: scores_ok_add_score)
  then show "scores_ok (set cands \<union> S) d \<Longrightarrow> ?thesis"
    by (simp add: check_synonyms_def)
qed

text \<open>The countries that the special location rules name.\<close>

definition special_countries :: "string set" where
  "special_countries = {''Hong Kong'', ''Macau'', ''Taiwan'', ''China'', ''United Kingdom'',
                        ''United States'', ''Canada''}"

lemma scores_ok_special:
  assumes "scores_ok (C \<union> special_countries) d"
  shows "scores_ok (C \<union> special_countries) (apply_special_location_rules ft cs d region)"
proof -
  have 1: "scores_ok (C \<union> special_countries) (hong_kong_macau ft d)"
    using assms by (auto simp: hong_kong_macau_def Let_def special_countries_def intro!: scores_ok_add_score)
  have 2: "scores_ok (C \<union> special_countries) (taiwan_china ft (hong_kong_macau ft d))"
    using 1 by (auto simp: taiwan_china_def special_countries_def intro!: scores_ok_add_score)
  have 3: "scores_ok (C \<union> special_countries) (uk_constituents ft (taiwan_china ft (hong_kong_macau ft d)))"
    using 2 by (auto simp: uk_constituents_def Let_def special_countries_def intro!: scores_ok_add_score)
  show ?thesis
    using 3 by (auto simp: apply_special_location_rules_def us_canada_def special_countries_def intro!: scores_ok_add_score)
qed

lemma scores_ok_country_scores_of:
  "scores_ok (set (candidates_of self region) \<union> special_countries)
     (country_scores_of self t e cs region)"
  unfolding country_scores_of_def Let_def
  by (intro scores_ok_special scores_ok_check_synonyms scores_ok_score_countries)

lemma max_key_mem: "max_key best rest \<in> set (best # rest)"
  by (induction rest arbitrary: best) (auto split: if_splits)

lemma max_key_scores_ok:
  "scores_ok K (kv # rest) \<Longrightarrow> fst (max_key kv rest) \<in> K \<and> 5 \<le> snd (max_key kv rest)"
  using max_key_mem [of kv rest] unfolding scores_ok_def
  by (metis (mono_tags, lifting) case_prod_beta)

text \<open>
  Claim C10, confidence gap: for every input the scorer returns either no country with
  confidence exactly 0, or a country with a confidence from 0.1 to 1; no confidence lies
  strictly between 0 and 0.1, since every entry of the dictionary of scores is at least 5
  and the confidence is the smaller of best score / 50 and 1.
\<close>

theorem confidence_gap:
  "case identify_country_from_context self article_title article_extract categories region of
     (None, confidence) \<Rightarrow> confidence = 0
   | (Some country, confidence) \<Rightarrow> 1 / 10 \<le> confidence \<and> confidence \<le> 1"
proof (cases "country_scores_of self article_title article_extract categories region")
  case Nil
  then show ?thesis by (simp add: identify_country_from_context_def)
next
  case (Cons kv rest)
  have "5 \<le> snd (max_key kv rest)"
    using scores_ok_country_scores_of [of self region article_title article_extract categories]
      max_key_scores_ok [of _ kv rest] Cons by simp
  then show ?thesis
    using Cons by (simp add: identify_country_from_context_def Let_def)
qed

lemma identified_country_cases:
  "fst (identify_country_from_context self t e cs region) = Some c \<Longrightarrow>
   c \<in> set (candidates_of self region) \<union> special_countries"
proof (cases "country_scores_of self t e cs region")
  case Nil
  assume "fst (identify_country_from_context self t e cs region) = Some c"
  with Nil show ?thesis by (simp add: identify_country_from_context_def)
next
  case (Cons kv rest)
  assume "fst (identify_country_from_context self t e cs region) = Some c"
  with Cons have "c = fst (max_key kv rest)"
    by (simp add: identify_country_from_context_def Let_def)
  then show ?thesis
    using scores_ok_country_scores_of [of self region t e cs]
      max_key_scores_ok [of "set (candidates_of self region) \<union> special_countries" kv rest] Cons
    by simp
qed

text \<open>
  Claim C1, region isolation: the scorer never returns a country outside the countries
  registered for the region.  The special location rules for Hong Kong, Macau, Taiwan,
  China and the United Kingdom add to the dictionary of scores without asking for the
  region, unlike the synonym pass (\<open>if canonical in region_countries\<close>) and the rule for
  North America (\<open>if region == 'North America'\<close>).  For an article of the region Asia
  whose extract says \<open>English-style\<close> the scorer returns the United Kingdom, which is no
  country of Asia.
\<close>

theorem out_of_region_country_returned:
  "identify_country_from_context DataExtractor ''Thames Town''
     ''Thames Town is an English-style new town near Shanghai'' [] ''Asia''
   = (Some ''United Kingdom'', 3 / 5)
   \<and> ''United Kingdom'' \<notin> set (candidates_of DataExtractor ''Asia'')"
  by code_simp

text \<open>The strings that the special location rules look for in the analysis text.\<close>

definition special_markers :: "string list" where
  "special_markers = [''hong kong'', ''macau'', ''macao'', ''taiwan'', ''republic of china'',
     ''mainland china'', ''people'' @ [CHR 0x27] @ ''s republic'',
     ''england'', ''english'', ''london'', ''scotland'', ''scottish'', ''edinburgh'',
     ''wales'', ''welsh'', ''cardiff'', ''northern ireland'',
     ''united states'', '' usa '', '' us '', ''american'', ''canada'', ''canadian'']"

lemma no_marker_no_rule:
  assumes "\<not> any_in special_markers ft"
  shows "apply_special_location_rules ft cs d region = d"
  using assms
  by (simp add: any_in_def special_markers_def apply_special_location_rules_def us_canada_def
      us_marker_def uk_constituents_def taiwan_china_def taiwan_marker_def hong_kong_macau_def)

lemma check_synonyms_none:
  assumes "\<forall>(synonym, canonical) \<in> set (country_synonyms self).
             canonical \<in> set cands \<longrightarrow> \<not> contains ft (lower synonym)"
  shows "check_synonyms self ft cands d = d"
proof -
  have "\<forall>(synonym, canonical) \<in> set xs.
             canonical \<in> set cands \<longrightarrow> \<not> contains ft (lower synonym) \<Longrightarrow>
        fold (\<lambda>(synonym, canonical) scores.
             if canonical \<in> set cands \<and> contains ft (lower synonym)
             then add_score canonical 8 scores else scores) xs d = d" for xs
    by (induction xs arbitrary: d) auto
  from this [OF assms] show ?thesis by (simp add: check_synonyms_def)
qed

lemma score_countries_none:
  assumes "\<forall>country \<in> set cands. country_score t e cs ft country \<le> 0"
  shows "score_countries t e cs ft cands = []"
proof -
  have "\<forall>country \<in> set xs. country_score t e cs ft country \<le> 0 \<Longrightarrow>
        fold (\<lambda>country country_scores.
             (let score = country_score t e cs ft country
              in if 0 < score then AList.update country score country_scores
                 else country_scores)) xs d = d" for xs d
    by (induction xs arbitrary: d) (auto simp: Let_def)
  from this [OF assms] show ?thesis by (simp add: score_countries_def)
qed

text \<open>
  Claim C5, as the specification states it: the scorer raises for a region that the
  gazetteer does not know.  The lookup is \<open>self.region_countries.get(region, set())\<close>:
  for the unknown region \<open>Atlantis\<close> the scorer returns the ordinary result of an article
  without signal.
\<close>

theorem unknown_region_no_error:
  "map_of (region_countries DataExtractor) ''Atlantis'' = None
   \<and> identify_country_from_context DataExtractor ''Lost City'' ''A city under the sea'' [] ''Atlantis''
     = (None, 0)"
  by code_simp

text \<open>
  Claim C5, amended: with a region that the gazetteer does not know the scorer does not
  fail; it scores against the empty set of candidates and returns no country with
  confidence 0, whatever the title, extract and categories are, unless the analysis text
  holds a marker of the special location rules.
\<close>

theorem unknown_region_returns_none:
  assumes "map_of (region_countries self) region = None"
    and "\<not> any_in special_markers (full_text_of article_title article_extract categories)"
  shows "identify_country_from_context self article_title article_extract categories region = (None, 0)"
proof -
  have c: "candidates_of self region = []"
    using assms(1) by (simp add: candidates_of_def)
  have "country_scores_of self article_title article_extract categories region = []"
    unfolding country_scores_of_def Let_def c
    using no_marker_no_rule [OF assms(2)] check_synonyms_none [of self "[]"]
      score_countries_none [of "[]"]
    by simp
  then show ?thesis by (simp add: identify_country_from_context_def)
qed

text \<open>The amended claim at an unknown region, for a text that names a country.\<close>

theorem unknown_region_returns_none_witness:
  "map_of (region_countries DataExtractor) ''Atlantis'' = None
   \<and> \<not> any_in special_markers (full_text_of ''Lost City'' ''France'' [''Cities in France''])
   \<and> identify_country_from_context DataExtractor ''Lost City'' ''France'' [''Cities in France''] ''Atlantis''
     = (None, 0)"
proof -
  have a: "map_of (region_countries DataExtractor) ''Atlantis'' = None" by code_simp
  have b: "\<not> any_in special_markers (full_text_of ''Lost City'' ''France'' [''Cities in France''])"
    by code_simp
  show ?thesis using a b unknown_region_returns_none [OF a b] by simp
qed




lemma lower_space: "lower (s @ '' '') = lower s @ '' ''"
  by (simp add: lower_def lower_char_def upper_chars_def lower_chars_def)




lemma candidates_of_mem:
  "c \<in> set (candidates_of self region) \<Longrightarrow> c \<in> set (concat (map snd (region_countries self)))"
proof -
  assume c: "c \<in> set (candidates_of self region)"
  then obtain cs where m: "map_of (region_countries self) region = Some cs" and "c \<in> set cs"
    by (cases "map_of (region_countries self) region") (auto simp: candidates_of_def)
  moreover from m have "(region, cs) \<in> set (region_countries self)" by (rule map_of_SomeD)
  ultimately show ?thesis by force
qed





section \<open>Properties of the Aggregator\<close>

lemma get_bucket_update:
  "get_bucket (AList.update k v d) c = (if c = k then v else get_bucket d c)"
  by (simp add: get_bucket_def update_conv')

lemma fold_route_article:
  "snd (fold route_article infos st) = snd st @ filter (\<lambda>i. \<not> assigned i) infos
   \<and> get_bucket (fst (fold route_article infos st)) c
     = get_bucket (fst st) c @ filter (\<lambda>i. assigned i \<and> identified_country i = Some c) infos"
proof (induction infos arbitrary: st)
  case Nil
  then show ?case by simp
next
  case (Cons info infos)
  have a: "assigned info \<Longrightarrow> \<exists>k. identified_country info = Some k"
    by (auto simp: assigned_def split: option.splits)
  have step: "snd (route_article info st) = snd st @ (if assigned info then [] else [info])
      \<and> get_bucket (fst (route_article info st)) c
        = get_bucket (fst st) c @ (if assigned info \<and> identified_country info = Some c then [info] else [])"
    using a by (auto simp: route_article_def Let_def get_bucket_update)
  show ?case
    using Cons [of "route_article info st"] step by simp
qed

lemma organize_region_fold:
  "organize_region self wiki entry st
   = fold route_article (map (\<lambda>article_title. get_enhanced_article_info self wiki article_title (fst entry)) (snd entry)) st"
  by (simp add: organize_region_def fold_map comp_def)

lemma organize_regions_fold:
  "fold (organize_region self wiki) regional_articles st
   = fold route_article (scored_articles self wiki regional_articles) st"
  by (induction regional_articles arbitrary: st)
     (simp_all add: scored_articles_def organize_region_fold)

lemma enhanced_country_cases:
  "identified_country (get_enhanced_article_info self wiki t region) = Some c \<Longrightarrow>
   c \<in> set (candidates_of self region) \<union> special_countries"
  using identified_country_cases [of self t _ _ region c]
  by (auto simp: get_enhanced_article_info_def Let_def create_fallback_enhanced_info_def
      split: response.splits)

lemma gazetteer_no_reserved_name:
  "[] \<notin> set (concat (map snd (region_countries DataExtractor)))
   \<and> ''Unidentified'' \<notin> set (concat (map snd (region_countries DataExtractor)))"
  by code_simp

lemma special_no_reserved_name:
  "[] \<notin> special_countries \<and> ''Unidentified'' \<notin> special_countries"
  by (simp add: special_countries_def)

lemma scored_country_not_reserved:
  assumes "info \<in> set (scored_articles DataExtractor wiki regional_articles)"
  shows "identified_country info \<noteq> Some [] \<and> identified_country info \<noteq> Some ''Unidentified''"
proof -
  from assms obtain t region where
    "info = get_enhanced_article_info DataExtractor wiki t region"
    by (auto simp: scored_articles_def)
  then show ?thesis
    using enhanced_country_cases [of DataExtractor wiki t region]
      candidates_of_mem [of _ DataExtractor region] gazetteer_no_reserved_name
      special_no_reserved_name
    by blast
qed

text \<open>
  Claim C2, threshold routing: the Aggregator puts a scored article into the bucket of
  its country if and only if it has a country and its confidence is strictly greater than
  0.1, and into the bucket \<open>Unidentified\<close> otherwise.  So the bucket of a country holds
  exactly the articles attributed to it with a confidence above 0.1, in the order of
  arrival, and the bucket \<open>Unidentified\<close> exactly the others, among them every article
  with confidence 0.1 and every article without a country.
\<close>

theorem threshold_routing:
  "get_bucket (organize_by_countries DataExtractor wiki regional_articles) bucket_name
   = (if bucket_name = ''Unidentified''
      then filter (\<lambda>info. \<not> (identified_country info \<noteq> None \<and> 1 / 10 < country_confidence info))
             (scored_articles DataExtractor wiki regional_articles)
      else filter (\<lambda>info. identified_country info = Some bucket_name \<and> 1 / 10 < country_confidence info)
             (scored_articles DataExtractor wiki regional_articles))"
proof -
  let ?infos = "scored_articles DataExtractor wiki regional_articles"
  let ?final = "fold (organize_region DataExtractor wiki) regional_articles ([], [])"
  have final: "?final = fold route_article ?infos ([], [])"
    by (rule organize_regions_fold)
  have assigned_iff: "assigned info \<longleftrightarrow> identified_country info \<noteq> None \<and> 1 / 10 < country_confidence info"
    if "info \<in> set ?infos" for info
    using scored_country_not_reserved [OF that]
    by (auto simp: assigned_def split: option.splits)
  have un: "snd ?final = filter (\<lambda>info. \<not> (identified_country info \<noteq> None \<and> 1 / 10 < country_confidence info)) ?infos"
    unfolding final using fold_route_article [of ?infos "([], [])"] assigned_iff
    by (auto intro: filter_cong)
  have ca: "get_bucket (fst ?final) c
            = filter (\<lambda>info. identified_country info = Some c \<and> 1 / 10 < country_confidence info) ?infos" for c
  proof -
    have "get_bucket (fst ?final) c = filter (\<lambda>i. assigned i \<and> identified_country i = Some c) ?infos"
      unfolding final using fold_route_article [of ?infos "([], [])" c]
      by (simp add: get_bucket_def)
    also have "\<dots> = filter (\<lambda>info. identified_country info = Some c \<and> 1 / 10 < country_confidence info) ?infos"
      using assigned_iff by (auto intro: filter_cong)
    finally show ?thesis .
  qed
  have none_unid: "filter (\<lambda>info. identified_country info = Some ''Unidentified'' \<and> 1 / 10 < country_confidence info) ?infos = []"
    using scored_country_not_reserved [of _ wiki regional_articles]
    by (auto simp: filter_empty_conv)
  show ?thesis
  proof (cases "bucket_name = ''Unidentified''")
    case True
    show ?thesis
    proof (cases "snd ?final = []")
      case True
      with \<open>bucket_name = ''Unidentified''\<close> show ?thesis
        using un ca [of "''Unidentified''"] none_unid
        by (simp add: organize_by_countries_def Let_def)
    next
      case False
      with \<open>bucket_name = ''Unidentified''\<close> show ?thesis
        using un by (simp add: organize_by_countries_def Let_def get_bucket_update)
    qed
  next
    case False
    then show ?thesis
      using ca [of bucket_name]
      by (simp add: organize_by_countries_def Let_def get_bucket_update)
  qed
qed

section \<open>Monotonicity of the accumulated score\<close>








































section \<open>Invocations on one extractor object\<close>






section \<open>Rounding of the confidence\<close>

text \<open>
  Every score is a whole number, so the confidence is a multiple of a fiftieth or 1, and
  \<open>round(confidence, 2)\<close> in \<open>get_enhanced_article_info\<close> returns it unchanged: the
  confidence that the Aggregator compares with 0.1 is the confidence of the scorer.
\<close>

definition scores_int :: "(string \<times> rat) list \<Rightarrow> bool" where
  "scores_int d = (\<forall>(k, v) \<in> set d. v \<in> \<int>)"

lemma scores_int_update:
  "v \<in> \<int> \<Longrightarrow> scores_int d \<Longrightarrow> scores_int (AList.update k v d)"
  unfolding scores_int_def using set_update_cases by fastforce

lemma get_score_int: "scores_int d \<Longrightarrow> get_score d k \<in> \<int>"
  by (fastforce simp: scores_int_def get_score_def split: option.splits dest: map_of_SomeD)

lemma scores_int_add_score:
  "w \<in> \<int> \<Longrightarrow> scores_int d \<Longrightarrow> scores_int (add_score k w d)"
  unfolding add_score_def by (intro scores_int_update Ints_add get_score_int)

lemma category_scoring_int:
  "s \<in> \<int> \<Longrightarrow> category_scoring cl cs s \<in> \<int>"
  by (induction cs arbitrary: s) (auto simp: Let_def intro!: Ints_add)

lemma country_score_int: "country_score t e cs ft c \<in> \<int>"
  unfolding country_score_def Let_def
  by (auto intro!: Ints_add Ints_mult category_scoring_int)

lemma scores_int_score_countries: "scores_int (score_countries t e cs ft cands)"
proof -
  have "scores_int acc \<Longrightarrow>
        scores_int (fold (\<lambda>country country_scores.
             (let score = country_score t e cs ft country
              in if 0 < score then AList.update country score country_scores
                 else country_scores)) xs acc)" for xs acc
    by (induction xs arbitrary: acc) (auto simp: Let_def scores_int_update country_score_int)
  from this [of "[]" cands] show ?thesis
    by (simp add: score_countries_def scores_int_def)
qed

lemma scores_int_check_synonyms:
  "scores_int d \<Longrightarrow> scores_int (check_synonyms self ft cands d)"
proof -
  have "scores_int acc \<Longrightarrow>
        scores_int (fold (\<lambda>(synonym, canonical) scores.
             if canonical \<in> set cands \<and> contains ft (lower synonym)
             then add_score canonical 8 scores else scores) xs acc)" for xs acc
    by (induction xs arbitrary: acc) (auto simp: scores_int_add_score)
  then show "scores_int d \<Longrightarrow> ?thesis"
    by (simp add: check_synonyms_def)
qed

lemma scores_int_special:
  "scores_int d \<Longrightarrow> scores_int (apply_special_location_rules ft cs d region)"
  by (simp add: apply_special_location_rules_def us_canada_def uk_constituents_def
      taiwan_china_def hong_kong_macau_def Let_def scores_int_add_score)

lemma scores_int_country_scores_of: "scores_int (country_scores_of self t e cs region)"
  unfolding country_scores_of_def Let_def
  by (intro scores_int_special scores_int_check_synonyms scores_int_score_countries)

lemma round_half_even_of_int: "round_half_even (of_int m) = m"
  by (simp add: round_half_even_def)

lemma round2_confidence:
  assumes "v \<in> \<int>"
  shows "round2 (min (v / 50) 1) = min (v / 50) 1"
proof -
  from assms obtain n where v: "v = of_int n" by (auto elim: Ints_cases)
  show ?thesis
  proof (cases "v / 50 \<le> 1")
    case True
    have "v / 50 * 100 = of_int (2 * n)" by (simp add: v)
    then have "round_half_even (v / 50 * 100) = 2 * n"
      using round_half_even_of_int [of "2 * n"] by simp
    then show ?thesis using True by (simp add: round2_def min_def v)
  next
    case False
    have "round_half_even (1 * 100) = 100"
      using round_half_even_of_int [of 100] by simp
    then show ?thesis using False by (simp add: round2_def min_def)
  qed
qed

lemma identified_confidence_rounded:
  "round2 (snd (identify_country_from_context self t e cs region))
   = snd (identify_country_from_context self t e cs region)"
proof (cases "country_scores_of self t e cs region")
  case Nil
  have "round_half_even 0 = 0" using round_half_even_of_int [of 0] by simp
  with Nil show ?thesis by (simp add: identify_country_from_context_def round2_def)
next
  case (Cons kv rest)
  have "snd (max_key kv rest) \<in> \<int>"
    using scores_int_country_scores_of [of self t e cs region] max_key_mem [of kv rest] Cons
    unfolding scores_int_def by (metis (mono_tags, lifting) case_prod_beta)
  then show ?thesis
    using Cons by (simp add: identify_country_from_context_def Let_def round2_confidence)
qed

lemma enhanced_info_result:
  assumes "page_summary wiki (replace_char CHR '' '' CHR ''_'' t) = Response status_code data"
  shows "(identified_country (get_enhanced_article_info self wiki t region),
          country_confidence (get_enhanced_article_info self wiki t region))
         = identify_country_from_context self t
             (if status_code = 200 then get_or (summary_extract data) [] else [])
             (article_categories wiki t) region"
  using assms
  by (simp add: get_enhanced_article_info_def Let_def identified_confidence_rounded)

end
